theory Spec2Isabelle
  imports Complex_Main "HOL-Library.Word"
begin

section \<open>A watchface: time, date, weather text, battery bar and bluetooth icon\<close>

text \<open>
  The program is \<^verbatim>\<open>src/c/main.c\<close>: a set of callbacks that the host's event loop runs
  one at a time. Each callback is modelled as a function from the program's state to the
  SDK calls it makes that change what the watch shows or does (text, visibility, redraw
  requests, drawing, outbound messages, vibration, log lines), in order, and the state
  it leaves. What a callback reads from the host (the wall clock, the 24-hour setting,
  the connection and battery state, an inbound dictionary) is an argument of the
  function.
\<close>

subsection \<open>C strings and decimal output\<close>

definition NUL :: char where
  "NUL = CHR 0x00"

text \<open>The characters of a C string: everything before the first terminator.\<close>

definition c_str :: "string \<Rightarrow> string" where
  "c_str a = takeWhile (\<lambda>c. c \<noteq> NUL) a"

definition digit_char :: "nat \<Rightarrow> char" where
  "digit_char d = ''0123456789'' ! d"

fun dec_nat :: "nat \<Rightarrow> string" where
  "dec_nat n = (if n < 10 then [digit_char n] else dec_nat (n div 10) @ [digit_char (n mod 10)])"

declare dec_nat.simps [simp del]

text \<open>The conversion \<^verbatim>\<open>%d\<close>: decimal digits, a minus sign for a negative value.\<close>

definition dec_int :: "int \<Rightarrow> string" where
  "dec_int i = (if i < 0 then CHR ''-'' # dec_nat (nat (- i)) else dec_nat (nat i))"

datatype printf_arg = ArgInt int | ArgStr string

definition printf_conversion :: "char \<Rightarrow> printf_arg \<Rightarrow> string" where
  "printf_conversion d a =
     (case a of
        ArgInt i \<Rightarrow> (if d = CHR ''d'' then dec_int i else [])
      | ArgStr s \<Rightarrow> (if d = CHR ''s'' then c_str s else []))"

text \<open>
  The output of a \<^verbatim>\<open>printf\<close> format: a \<^verbatim>\<open>%\<close> takes the next character as its
  conversion and consumes one argument, every other character is copied.
\<close>

fun printf_format :: "string \<Rightarrow> printf_arg list \<Rightarrow> string" where
  "printf_format [] args = []"
| "printf_format [c] args = [c]"
| "printf_format (c # d # cs) args =
     (if c = CHR ''%''
      then (case args of
              [] \<Rightarrow> []
            | a # as \<Rightarrow> printf_conversion d a @ printf_format cs as)
      else c # printf_format (d # cs) args)"

text \<open>
  \<^verbatim>\<open>snprintf(buf, n, fmt, ...)\<close> stores at most \<open>n - 1\<close> characters of the output and a
  terminator. A buffer is modelled by the C string it holds, so the call leaves the
  first \<open>n - 1\<close> characters of the output; with \<open>n = 0\<close> nothing is stored.
\<close>

definition snprintf :: "string \<Rightarrow> nat \<Rightarrow> string \<Rightarrow> printf_arg list \<Rightarrow> string" where
  "snprintf buf n fmt args = (if n = 0 then buf else take (n - 1) (printf_format fmt args))"

subsection \<open>Broken-down time and \<^verbatim>\<open>strftime\<close>\<close>

record tm =
  tm_sec :: int
  tm_min :: int
  tm_hour :: int
  tm_mday :: int
  tm_mon :: int
  tm_year :: int
  tm_wday :: int
  tm_yday :: int
  tm_isdst :: int

definition wday_abbr :: "string list" where
  "wday_abbr = [''Sun'', ''Mon'', ''Tue'', ''Wed'', ''Thu'', ''Fri'', ''Sat'']"

definition mon_abbr :: "string list" where
  "mon_abbr = [''Jan'', ''Feb'', ''Mar'', ''Apr'', ''May'', ''Jun'',
               ''Jul'', ''Aug'', ''Sep'', ''Oct'', ''Nov'', ''Dec'']"

definition two_digits :: "int \<Rightarrow> string" where
  "two_digits n = [digit_char (nat n div 10), digit_char (nat n mod 10)]"

text \<open>
  The conversions of the C standard that the program uses, in the C locale. Where a
  field is outside its normal range the standard leaves the stored characters
  unspecified: the result is \<open>None\<close>.
  \<^item> \<^verbatim>\<open>%H\<close>: the hour of the 24-hour clock, two digits;
  \<^item> \<^verbatim>\<open>%I\<close>: the hour of the 12-hour clock, two digits, 01 to 12;
  \<^item> \<^verbatim>\<open>%M\<close>: the minute, two digits;
  \<^item> \<^verbatim>\<open>%a\<close>, \<^verbatim>\<open>%b\<close>: the abbreviated weekday and month names;
  \<^item> \<^verbatim>\<open>%e\<close>: the day of the month, a single digit preceded by a space.
\<close>

definition strftime_conversion :: "char \<Rightarrow> tm \<Rightarrow> string option" where
  "strftime_conversion d t =
     (if d = CHR ''H'' then
        (if 0 \<le> tm_hour t \<and> tm_hour t \<le> 23 then Some (two_digits (tm_hour t)) else None)
      else if d = CHR ''I'' then
        (if 0 \<le> tm_hour t \<and> tm_hour t \<le> 23
         then Some (two_digits (if tm_hour t mod 12 = 0 then 12 else tm_hour t mod 12))
         else None)
      else if d = CHR ''M'' then
        (if 0 \<le> tm_min t \<and> tm_min t \<le> 59 then Some (two_digits (tm_min t)) else None)
      else if d = CHR ''a'' then
        (if 0 \<le> tm_wday t \<and> tm_wday t \<le> 6 then Some (wday_abbr ! nat (tm_wday t)) else None)
      else if d = CHR ''b'' then
        (if 0 \<le> tm_mon t \<and> tm_mon t \<le> 11 then Some (mon_abbr ! nat (tm_mon t)) else None)
      else if d = CHR ''e'' then
        (if 1 \<le> tm_mday t \<and> tm_mday t \<le> 31
         then Some (if tm_mday t < 10 then CHR '' '' # dec_int (tm_mday t) else dec_int (tm_mday t))
         else None)
      else None)"

fun strftime_format :: "string \<Rightarrow> tm \<Rightarrow> string option" where
  "strftime_format [] t = Some []"
| "strftime_format [c] t = Some [c]"
| "strftime_format (c # d # cs) t =
     (if c = CHR ''%''
      then (case strftime_conversion d t of
              None \<Rightarrow> None
            | Some x \<Rightarrow> map_option (\<lambda>r. x @ r) (strftime_format cs t))
      else map_option (\<lambda>r. c # r) (strftime_format (d # cs) t))"

text \<open>
  \<^verbatim>\<open>strftime(buf, maxsize, fmt, tm)\<close> stores the output and its terminator when they
  fit in \<open>maxsize\<close> characters; otherwise the contents of the array are indeterminate (\<open>None\<close>).
\<close>

definition strftime :: "nat \<Rightarrow> string \<Rightarrow> tm \<Rightarrow> string option" where
  "strftime maxsize fmt t =
     (case strftime_format fmt t of
        None \<Rightarrow> None
      | Some out \<Rightarrow> (if length out < maxsize then Some out else None))"

subsection \<open>SDK values\<close>

record grect =
  origin_x :: int
  origin_y :: int
  size_w :: int
  size_h :: int

definition GRect :: "int \<Rightarrow> int \<Rightarrow> int \<Rightarrow> int \<Rightarrow> grect" where
  "GRect x y w h = \<lparr>origin_x = x, origin_y = y, size_w = w, size_h = h\<rparr>"

record layer =
  layer_frame :: grect
  layer_bounds :: grect

text \<open>
  A new layer's bounds have the size of its frame and their origin at (0, 0). The SDK's
  coordinates are 16-bit; the program's are below 300 and are kept as integers. A fill
  is recorded by its rectangle, the corner arguments being the same in every call.
\<close>

definition layer_create :: "grect \<Rightarrow> layer" where
  "layer_create f = \<lparr>layer_frame = f, layer_bounds = GRect 0 0 (size_w f) (size_h f)\<rparr>"

definition layer_get_bounds :: "layer \<Rightarrow> grect" where
  "layer_get_bounds l = layer_bounds l"

datatype gcolor = GColorBlack | GColorWhite | GColorClear

datatype log_level = APP_LOG_LEVEL_ERROR | APP_LOG_LEVEL_INFO

text \<open>The static buffers that a text layer is pointed at, and the layers by name.\<close>

datatype buffer_name = S_BUFFER | DATE_BUFFER | WEATHER_LAYER_BUFFER

datatype layer_name =
  S_TIME_LAYER | S_DATE_LAYER | S_WEATHER_LAYER | S_BATTERY_LAYER | S_BT_ICON_LAYER

datatype sdk_call =
    TextLayerSetText layer_name buffer_name
  | AppMessageOutboxBegin
  | DictWriteUint8 "32 word" "8 word"
  | AppMessageOutboxSend
  | LayerMarkDirty layer_name
  | LayerSetHidden layer_name bool
  | VibesDoublePulse
  | GraphicsContextSetFillColor gcolor
  | GraphicsFillRect grect
  | AppLog log_level string

record battery_charge_state =
  charge_percent :: "8 word"
  is_charging :: bool
  is_plugged :: bool

text \<open>
  A tuple of an inbound dictionary. Its value is a union in C; the two views the
  program reads are kept as two fields, with no relation assumed between them. The
  32 bits of \<open>value_int32\<close> are read as a signed integer (\<open>sint\<close>).
\<close>

record tuple =
  key :: "32 word"
  value_int32 :: "32 word"
  value_cstring :: string

type_synonym dictionary_iterator = "tuple list"

definition dict_find :: "dictionary_iterator \<Rightarrow> 32 word \<Rightarrow> tuple option" where
  "dict_find iter k = find (\<lambda>t. key t = k) iter"

text \<open>
  The keys \<^verbatim>\<open>MESSAGE_KEY_TEMPERATURE\<close> and \<^verbatim>\<open>MESSAGE_KEY_CONDITIONS\<close> are generated at
  build time; they are parameters of the model.
\<close>

record message_keys =
  MESSAGE_KEY_TEMPERATURE :: "32 word"
  MESSAGE_KEY_CONDITIONS :: "32 word"

text \<open>What the host answers when asked: the local time now and the 24-hour setting.\<close>

record host_clock =
  localtime_now :: tm
  clock_is_24h_style :: bool

subsection \<open>The program's state\<close>

text \<open>
  The statics of \<^verbatim>\<open>main.c\<close> that the callbacks read or write, and of each SDK object the
  part they set: a text layer's text pointer (\<open>None\<close> is the null pointer), the bluetooth
  icon's hidden flag, the battery layer (\<open>None\<close> before it is created). The time and date
  buffers are \<open>None\<close> when a failed \<^verbatim>\<open>strftime\<close> has left them indeterminate.
\<close>

record app_state =
  s_buffer :: "string option"
  date_buffer :: "string option"
  temperature_buffer :: string
  conditions_buffer :: string
  weather_layer_buffer :: string
  s_battery_level :: int
  s_time_layer :: "buffer_name option"
  s_date_layer :: "buffer_name option"
  s_weather_layer :: "buffer_name option"
  s_bt_icon_layer_hidden :: bool
  s_battery_layer :: "layer option"

text \<open>The text a layer shows: the C string in the buffer it points at.\<close>

definition buffer_text :: "app_state \<Rightarrow> buffer_name \<Rightarrow> string option" where
  "buffer_text s b =
     (case b of
        S_BUFFER \<Rightarrow> s_buffer s
      | DATE_BUFFER \<Rightarrow> date_buffer s
      | WEATHER_LAYER_BUFFER \<Rightarrow> Some (weather_layer_buffer s))"

definition layer_text :: "app_state \<Rightarrow> buffer_name option \<Rightarrow> string option" where
  "layer_text s p = (case p of None \<Rightarrow> None | Some b \<Rightarrow> buffer_text s b)"

definition current_time :: "app_state \<Rightarrow> string option" where
  "current_time s = layer_text s (s_time_layer s)"

definition current_date :: "app_state \<Rightarrow> string option" where
  "current_date s = layer_text s (s_date_layer s)"

definition weather_text :: "app_state \<Rightarrow> string option" where
  "weather_text s = layer_text s (s_weather_layer s)"

subsection \<open>Time and date\<close>

definition update_time :: "host_clock \<Rightarrow> app_state \<Rightarrow> sdk_call list \<times> app_state" where
  "update_time clock s =
     (let tick_time = localtime_now clock;
          s1 = s\<lparr>s_buffer := strftime 8 (if clock_is_24h_style clock then ''%H:%M'' else ''%I:%M'')
                                tick_time\<rparr>;
          s2 = s1\<lparr>s_time_layer := Some S_BUFFER\<rparr>;
          s3 = s2\<lparr>date_buffer := strftime 16 ''%a %b %e'' tick_time\<rparr>;
          s4 = s3\<lparr>s_date_layer := Some DATE_BUFFER\<rparr>
      in ([TextLayerSetText S_TIME_LAYER S_BUFFER, TextLayerSetText S_DATE_LAYER DATE_BUFFER], s4))"

text \<open>C's \<^verbatim>\<open>%\<close> on \<^verbatim>\<open>int\<close>: the remainder of the division that truncates towards zero.\<close>

definition c_rem :: "int \<Rightarrow> int \<Rightarrow> int" where
  "c_rem a b = sgn a * (\<bar>a\<bar> mod \<bar>b\<bar>)"

type_synonym time_units = "8 word"

definition tick_handler ::
  "host_clock \<Rightarrow> tm \<Rightarrow> time_units \<Rightarrow> app_state \<Rightarrow> sdk_call list \<times> app_state" where
  "tick_handler clock tick_time units_changed s =
     (case update_time clock s of
        (calls, s') \<Rightarrow>
          (if c_rem (tm_min tick_time) 30 = 0
           then (calls @ [AppMessageOutboxBegin, DictWriteUint8 0 0, AppMessageOutboxSend], s')
           else (calls, s')))"

text \<open>
  The messages that a sequence of SDK calls hands to the messaging channel: a begin
  opens an empty dictionary, a write adds a pair to the open dictionary, a send emits
  it. The outbox is taken to be free, so that begin and send succeed.
\<close>

fun outbox_run ::
  "(32 word \<times> 8 word) list option \<Rightarrow> sdk_call list \<Rightarrow> (32 word \<times> 8 word) list list" where
  "outbox_run cur [] = []"
| "outbox_run cur (AppMessageOutboxBegin # cs) = outbox_run (Some []) cs"
| "outbox_run cur (DictWriteUint8 k v # cs) =
     outbox_run (map_option (\<lambda>d. d @ [(k, v)]) cur) cs"
| "outbox_run cur (AppMessageOutboxSend # cs) =
     (case cur of None \<Rightarrow> outbox_run None cs | Some d \<Rightarrow> d # outbox_run None cs)"
| "outbox_run cur (c # cs) = outbox_run cur cs"

definition sent_messages :: "sdk_call list \<Rightarrow> (32 word \<times> 8 word) list list" where
  "sent_messages calls = outbox_run None calls"

subsection \<open>Bluetooth\<close>

definition bluetooth_callback :: "bool \<Rightarrow> app_state \<Rightarrow> sdk_call list \<times> app_state" where
  "bluetooth_callback is_connected s =
     (let s1 = s\<lparr>s_bt_icon_layer_hidden := is_connected\<rparr>
      in if \<not> is_connected
         then ([LayerSetHidden S_BT_ICON_LAYER is_connected, VibesDoublePulse], s1)
         else ([LayerSetHidden S_BT_ICON_LAYER is_connected], s1))"

subsection \<open>Battery\<close>

definition battery_callback ::
  "battery_charge_state \<Rightarrow> app_state \<Rightarrow> sdk_call list \<times> app_state" where
  "battery_callback state s =
     ([LayerMarkDirty S_BATTERY_LAYER], s\<lparr>s_battery_level := uint (charge_percent state)\<rparr>)"

text \<open>
  Single-precision arithmetic. A finite \<^verbatim>\<open>float\<close> is modelled by the real number it
  stands for, and every operation rounds its exact result to the nearest number with a
  24-bit significand, ties to the even significand (IEEE 754 binary32, exponents from
  \<open>-126\<close>). Overflow to infinity is not modelled: the operands here are a battery level
  read from eight bits and the constants 100 and 114.
\<close>

function bitlen :: "int \<Rightarrow> int" where
  "bitlen n = (if n \<le> 0 then 0 else 1 + bitlen (n div 2))"
  by pat_completeness auto
termination
  by (relation "measure nat") auto

declare bitlen.simps [simp del]

definition pow2 :: "int \<Rightarrow> real" where
  "pow2 k = (if 0 \<le> k then 2 ^ nat k else 1 / 2 ^ nat (- k))"

definition ilog2_below :: "real \<Rightarrow> int \<Rightarrow> int" where
  "ilog2_below x k = (if pow2 k \<le> x then k else k - 1)"

text \<open>For \<open>x > 0\<close>, the exponent \<open>e\<close> with \<open>2\<^sup>e \<le> x < 2\<^sup>e\<^sup>+\<^sup>1\<close>.\<close>

definition ilog2 :: "real \<Rightarrow> int" where
  "ilog2 x = (if 1 \<le> x then bitlen \<lfloor>x\<rfloor> - 1
              else ilog2_below x (1 - bitlen \<lfloor>1 / x\<rfloor>))"

definition ties_to_even :: "real \<Rightarrow> int \<Rightarrow> int" where
  "ties_to_even q f =
     (if q - of_int f < 1 / 2 then f
      else if 1 / 2 < q - of_int f then f + 1
      else if even f then f else f + 1)"

definition round_half_even :: "real \<Rightarrow> int" where
  "round_half_even q = ties_to_even q \<lfloor>q\<rfloor>"

definition quantize :: "real \<Rightarrow> real \<Rightarrow> real" where
  "quantize x ulp = of_int (round_half_even (x / ulp)) * ulp"

definition f32_round :: "real \<Rightarrow> real" where
  "f32_round x =
     (if x = 0 then 0 else quantize x (pow2 (max (ilog2 \<bar>x\<bar>) (- 126) - 23)))"

definition f32_of_int :: "int \<Rightarrow> real" where
  "f32_of_int n = f32_round (of_int n)"

definition f32_div :: "real \<Rightarrow> real \<Rightarrow> real" where
  "f32_div a b = f32_round (a / b)"

definition f32_mul :: "real \<Rightarrow> real \<Rightarrow> real" where
  "f32_mul a b = f32_round (a * b)"

text \<open>The conversion of a \<^verbatim>\<open>float\<close> to \<^verbatim>\<open>int\<close> drops the fraction.\<close>

definition f32_to_int :: "real \<Rightarrow> int" where
  "f32_to_int x = (if 0 \<le> x then \<lfloor>x\<rfloor> else \<lceil>x\<rceil>)"

text \<open>
  \<^verbatim>\<open>(int)(float)(((float)s_battery_level / 100.0F) * 114.0F)\<close>
\<close>

definition battery_bar_width :: "int \<Rightarrow> int" where
  "battery_bar_width level =
     f32_to_int (f32_round (f32_mul (f32_div (f32_of_int level) (f32_round 100)) (f32_round 114)))"

definition battery_update_proc :: "layer \<Rightarrow> app_state \<Rightarrow> sdk_call list" where
  "battery_update_proc l s =
     (let bounds = layer_get_bounds l;
          width = battery_bar_width (s_battery_level s)
      in [GraphicsContextSetFillColor GColorBlack,
          GraphicsFillRect bounds,
          GraphicsContextSetFillColor GColorWhite,
          GraphicsFillRect (GRect 0 0 width (size_h bounds))])"

text \<open>The rectangles a drawing fills, in order: the background first, the bar last.\<close>

fun filled_rects :: "sdk_call list \<Rightarrow> grect list" where
  "filled_rects [] = []"
| "filled_rects (GraphicsFillRect r # cs) = r # filled_rects cs"
| "filled_rects (c # cs) = filled_rects cs"

definition track_width :: "sdk_call list \<Rightarrow> int" where
  "track_width calls = size_w (hd (filled_rects calls))"

definition bar_width :: "sdk_call list \<Rightarrow> int" where
  "bar_width calls = size_w (last (filled_rects calls))"

text \<open>The bar width as the specification words it: the real quotient, scaled, rounded.\<close>

definition spec_bar_width :: "int \<Rightarrow> int" where
  "spec_bar_width p = round (real_of_int p / 100 * 114)"

subsection \<open>Weather messages\<close>

definition inbox_received_callback ::
  "message_keys \<Rightarrow> dictionary_iterator \<Rightarrow> app_state \<Rightarrow> sdk_call list \<times> app_state" where
  "inbox_received_callback keys iterator s =
     (let temp_tuple = dict_find iterator (MESSAGE_KEY_TEMPERATURE keys);
          conditions_tuple = dict_find iterator (MESSAGE_KEY_CONDITIONS keys)
      in case (temp_tuple, conditions_tuple) of
           (Some tt, Some ct) \<Rightarrow>
             (let s1 = s\<lparr>temperature_buffer :=
                          snprintf (temperature_buffer s) 8 ''%dF''
                            [ArgInt (sint (value_int32 tt))]\<rparr>;
                  s2 = s1\<lparr>conditions_buffer :=
                          snprintf (conditions_buffer s1) 32 ''%s'' [ArgStr (value_cstring ct)]\<rparr>;
                  s3 = s2\<lparr>weather_layer_buffer :=
                          snprintf (weather_layer_buffer s2) 32 ''%s, %s''
                            [ArgStr (temperature_buffer s2), ArgStr (conditions_buffer s2)]\<rparr>;
                  s4 = s3\<lparr>s_weather_layer := Some WEATHER_LAYER_BUFFER\<rparr>
              in ([TextLayerSetText S_WEATHER_LAYER WEATHER_LAYER_BUFFER], s4))
         | _ \<Rightarrow> ([], s))"

definition inbox_dropped_callback :: "app_state \<Rightarrow> sdk_call list \<times> app_state" where
  "inbox_dropped_callback s = ([AppLog APP_LOG_LEVEL_ERROR ''Message dropped!''], s)"

definition outbox_failed_callback :: "app_state \<Rightarrow> sdk_call list \<times> app_state" where
  "outbox_failed_callback s = ([AppLog APP_LOG_LEVEL_ERROR ''Outbox send failed!''], s)"

definition outbox_sent_callback :: "app_state \<Rightarrow> sdk_call list \<times> app_state" where
  "outbox_sent_callback s = ([AppLog APP_LOG_LEVEL_INFO ''Outbox send success!''], s)"

subsection \<open>Start-up\<close>

text \<open>The statics before \<^verbatim>\<open>main\<close> runs: zero-filled buffers and null pointers.\<close>

definition static_init :: app_state where
  "static_init =
     \<lparr>s_buffer = Some [], date_buffer = Some [], temperature_buffer = [],
      conditions_buffer = [], weather_layer_buffer = [], s_battery_level = 0,
      s_time_layer = None, s_date_layer = None, s_weather_layer = None,
      s_bt_icon_layer_hidden = False, s_battery_layer = None\<rparr>"

text \<open>
  \<^verbatim>\<open>main_window_load\<close> creates the layers and shows the connection state; of the layers,
  fonts and bitmaps it creates, the state keeps the new text layers' null text and the
  battery layer it draws into.
\<close>

definition main_window_load :: "bool \<Rightarrow> app_state \<Rightarrow> sdk_call list \<times> app_state" where
  "main_window_load peek_connection s =
     (let s1 = s\<lparr>s_date_layer := None\<rparr>;
          s2 = s1\<lparr>s_time_layer := None\<rparr>;
          s3 = s2\<lparr>s_weather_layer := None\<rparr>;
          s4 = s3\<lparr>s_battery_layer := Some (layer_create (GRect 14 54 115 2))\<rparr>
      in bluetooth_callback peek_connection s4)"

text \<open>
  \<^verbatim>\<open>init\<close>: pushing the window loads it, then the time is shown and the battery level
  read.
\<close>

definition init ::
  "host_clock \<Rightarrow> bool \<Rightarrow> battery_charge_state \<Rightarrow> app_state \<Rightarrow> sdk_call list \<times> app_state" where
  "init clock peek_connection peek_battery s =
     (case main_window_load peek_connection s of
        (c1, s1) \<Rightarrow>
          (case update_time clock s1 of
             (c2, s2) \<Rightarrow>
               (case battery_callback peek_battery s2 of
                  (c3, s3) \<Rightarrow> (c1 @ c2 @ c3, s3))))"

subsection \<open>Example inputs\<close>

text \<open>
  A minute tick of the host, Wednesday 5 March 2025 at 13:05, the same day at 13:30,
  and the state the program is in once \<^verbatim>\<open>init\<close> has run with the phone connected and a
  full battery.
\<close>

definition MINUTE_UNIT :: time_units where
  "MINUTE_UNIT = 2"

definition wednesday_march_5 :: tm where
  "wednesday_march_5 =
     \<lparr>tm_sec = 0, tm_min = 5, tm_hour = 13, tm_mday = 5, tm_mon = 2, tm_year = 125,
      tm_wday = 3, tm_yday = 63, tm_isdst = 0\<rparr>"

definition half_past :: tm where
  "half_past = wednesday_march_5\<lparr>tm_min := 30\<rparr>"

definition example_clock :: host_clock where
  "example_clock = \<lparr>localtime_now = wednesday_march_5, clock_is_24h_style = True\<rparr>"

definition battery_at :: "8 word \<Rightarrow> battery_charge_state" where
  "battery_at p = \<lparr>charge_percent = p, is_charging = False, is_plugged = False\<rparr>"

definition started :: app_state where
  "started = snd (init example_clock True (battery_at 100) static_init)"

text \<open>
  Weather messages. Each tuple carries both views of its four leading bytes: 72 is the
  character \<open>H\<close>, and the strings start with the bytes of the integers given.
\<close>

definition example_keys :: message_keys where
  "example_keys = \<lparr>MESSAGE_KEY_TEMPERATURE = 10000, MESSAGE_KEY_CONDITIONS = 10001\<rparr>"

definition temperature_72 :: tuple where
  "temperature_72 = \<lparr>key = 10000, value_int32 = 72, value_cstring = ''H''\<rparr>"

definition conditions_cloudy :: tuple where
  "conditions_cloudy = \<lparr>key = 10001, value_int32 = 1970236483, value_cstring = ''Cloudy''\<rparr>"

definition conditions_long :: tuple where
  "conditions_long =
     \<lparr>key = 10001, value_int32 = 1853188180,
      value_cstring = ''Thunderstorms with heavy rain''\<rparr>"

text \<open>The state after the message \<open>72\<close>, \<open>Cloudy\<close> has been received.\<close>

definition cloudy_shown :: app_state where
  "cloudy_shown =
     snd (inbox_received_callback example_keys [temperature_72, conditions_cloudy] started)"

text \<open>The battery layer that \<^verbatim>\<open>main_window_load\<close> creates.\<close>

definition started_battery_layer :: layer where
  "started_battery_layer = layer_create (GRect 14 54 115 2)"

section \<open>Properties\<close>

subsection \<open>Minute ticks\<close>

lemma c_rem_zero_iff: "c_rem m 30 = 0 \<longleftrightarrow> m mod 30 = 0"
  unfolding c_rem_def by (auto simp: sgn_if zmod_zminus1_eq_if abs_if split: if_splits)

lemma update_time_calls:
  "fst (update_time clock s) = [TextLayerSetText S_TIME_LAYER S_BUFFER, TextLayerSetText S_DATE_LAYER DATE_BUFFER]"
  by (simp add: update_time_def Let_def)

lemma tick_handler_calls:
  "fst (tick_handler clock tick_time units s) =
     [TextLayerSetText S_TIME_LAYER S_BUFFER, TextLayerSetText S_DATE_LAYER DATE_BUFFER] @
     (if tm_min tick_time mod 30 = 0
      then [AppMessageOutboxBegin, DictWriteUint8 0 0, AppMessageOutboxSend] else [])"
  using update_time_calls [of clock s]
  by (cases "update_time clock s") (simp add: tick_handler_def c_rem_zero_iff)

lemma tick_handler_state:
  "snd (tick_handler clock tick_time units s) = snd (update_time clock s)"
  by (cases "update_time clock s") (simp add: tick_handler_def)

lemma strftime_time_24h:
  "strftime 8 ''%H:%M'' (t\<lparr>tm_hour := 13, tm_min := 5\<rparr>) = Some ''13:05''"
  by (simp add: strftime_def strftime_conversion_def two_digits_def digit_char_def)

lemma strftime_time_12h:
  "strftime 8 ''%I:%M'' (t\<lparr>tm_hour := 13, tm_min := 5\<rparr>) = Some ''01:05''"
  by (simp add: strftime_def strftime_conversion_def two_digits_def digit_char_def)

lemma current_time_update_time:
  "current_time (snd (update_time clock s)) = strftime 8 (if clock_is_24h_style clock then ''%H:%M'' else ''%I:%M'') (localtime_now clock)"
  by (simp add: update_time_def Let_def current_time_def layer_text_def buffer_text_def)

lemma current_date_update_time:
  "current_date (snd (update_time clock s)) = strftime 16 ''%a %b %e'' (localtime_now clock)"
  by (simp add: update_time_def Let_def current_date_def layer_text_def buffer_text_def)

lemma dec_int_digit: "0 \<le> i \<Longrightarrow> i < 10 \<Longrightarrow> dec_int i = [digit_char (nat i)]"
  by (simp add: dec_int_def dec_nat.simps)

lemma strftime_date:
  "strftime 16 ''%a %b %e'' (t\<lparr>tm_wday := 3, tm_mon := 2, tm_mday := 5\<rparr>) = Some ''Wed Mar  5''"
  by (simp add: strftime_def strftime_conversion_def wday_abbr_def mon_abbr_def dec_int_digit digit_char_def)

text \<open>
  Claim C1. On every minute tick the program hands a weather request to the messaging
  channel if and only if the tick's minute is a multiple of 30, and then it hands over
  exactly one: one message is sent, by one call of \<^verbatim>\<open>app_message_outbox_send\<close>.
\<close>

theorem tick_handler_weather_request:
  "(sent_messages (fst (tick_handler clock tick_time units_changed s)) \<noteq> [])
     = (tm_min tick_time mod 30 = 0) \<and>
   length (sent_messages (fst (tick_handler clock tick_time units_changed s)))
     = (if tm_min tick_time mod 30 = 0 then 1 else 0) \<and>
   count_list (fst (tick_handler clock tick_time units_changed s)) AppMessageOutboxSend
     = (if tm_min tick_time mod 30 = 0 then 1 else 0)"
  by (simp add: tick_handler_calls sent_messages_def)

text \<open>The same at 13:30 (one request) and at 13:05 (none).\<close>

theorem tick_handler_weather_request_witness:
  "length (sent_messages (fst (tick_handler example_clock half_past MINUTE_UNIT started))) = 1 \<and>
   length (sent_messages (fst (tick_handler example_clock wednesday_march_5 MINUTE_UNIT started))) = 0"
  using tick_handler_weather_request [of example_clock half_past MINUTE_UNIT started]
    tick_handler_weather_request [of example_clock wednesday_march_5 MINUTE_UNIT started]
  by (simp add: half_past_def wednesday_march_5_def)

text \<open>
  Claim C9 says that the request carries no payload field. At 13:30 a message is sent
  and it is not empty.
\<close>

theorem weather_request_payload_counterexample:
  "sent_messages (fst (tick_handler example_clock half_past MINUTE_UNIT started)) \<noteq> [] \<and>
   [] \<notin> set (sent_messages (fst (tick_handler example_clock half_past MINUTE_UNIT started)))"
  by (simp add: tick_handler_calls sent_messages_def half_past_def wednesday_march_5_def)

text \<open>
  Claim C9, amended. The message sent on a tick whose minute is a multiple of 30
  carries exactly one field, the key 0 with the 8-bit value 0, written by
  \<^verbatim>\<open>dict_write_uint8(iter,0,0)\<close>: a trigger whose payload says nothing.
\<close>

theorem weather_request_payload:
  "tm_min tick_time mod 30 = 0 \<Longrightarrow>
   sent_messages (fst (tick_handler clock tick_time units_changed s)) = [[(0, 0)]]"
  by (simp add: tick_handler_calls sent_messages_def)

theorem weather_request_payload_witness:
  "tm_min half_past mod 30 = 0 \<and>
   sent_messages (fst (tick_handler example_clock half_past MINUTE_UNIT started)) = [[(0, 0)]]"
proof -
  have h: "tm_min half_past mod 30 = 0"
    by (simp add: half_past_def wednesday_march_5_def)
  show ?thesis
    using h weather_request_payload [OF h, of example_clock MINUTE_UNIT started] by simp
qed

text \<open>
  Claim C7. On a minute tick at 13:05 the time shown is \<open>13:05\<close> when the host's
  24-hour setting is on and \<open>01:05\<close> when it is off, whatever the rest of the clock
  reading, the tick and the state before.
\<close>

theorem tick_handler_time_text:
  "current_time (snd (tick_handler
       \<lparr>localtime_now = t\<lparr>tm_hour := 13, tm_min := 5\<rparr>, clock_is_24h_style = True\<rparr>
       tick_time units_changed s)) = Some ''13:05'' \<and>
   current_time (snd (tick_handler
       \<lparr>localtime_now = t\<lparr>tm_hour := 13, tm_min := 5\<rparr>, clock_is_24h_style = False\<rparr>
       tick_time units_changed s)) = Some ''01:05''"
  by (simp add: tick_handler_state current_time_update_time strftime_time_24h strftime_time_12h)

theorem tick_handler_time_text_witness:
  "current_time (snd (tick_handler example_clock wednesday_march_5 MINUTE_UNIT started))
     = Some ''13:05'' \<and>
   current_time (snd (tick_handler (example_clock\<lparr>clock_is_24h_style := False\<rparr>)
       wednesday_march_5 MINUTE_UNIT started)) = Some ''01:05''"
  using tick_handler_time_text [of wednesday_march_5 wednesday_march_5 MINUTE_UNIT started]
  by (simp add: example_clock_def wednesday_march_5_def)

text \<open>
  Claim C8 says that on Wednesday, March 5 the date shown is \<open>Wed Mar 5\<close>. It is not:
  \<^verbatim>\<open>%e\<close> pads a single digit with a space.
\<close>

theorem tick_handler_date_text_counterexample:
  "current_date (snd (tick_handler example_clock wednesday_march_5 MINUTE_UNIT started))
     \<noteq> Some ''Wed Mar 5''"
  using strftime_date [of wednesday_march_5]
  by (simp add: tick_handler_state current_date_update_time example_clock_def
      wednesday_march_5_def)

text \<open>
  Claim C8, amended. On a minute tick on a Wednesday, March 5 the date shown is
  \<open>Wed Mar  5\<close>: the abbreviated weekday, the abbreviated month and the day of the month
  in a field of two characters, a single digit preceded by a space.
\<close>

theorem tick_handler_date_text:
  "current_date (snd (tick_handler
       \<lparr>localtime_now = t\<lparr>tm_wday := 3, tm_mon := 2, tm_mday := 5\<rparr>, clock_is_24h_style = h\<rparr>
       tick_time units_changed s)) = Some ''Wed Mar  5''"
  by (simp add: tick_handler_state current_date_update_time strftime_date)

theorem tick_handler_date_text_witness:
  "current_date (snd (tick_handler example_clock wednesday_march_5 MINUTE_UNIT started))
     = Some ''Wed Mar  5''"
  using tick_handler_date_text [of wednesday_march_5 True wednesday_march_5 MINUTE_UNIT started]
  by (simp add: example_clock_def wednesday_march_5_def)

subsection \<open>Bluetooth\<close>

text \<open>
  Claim C6. A bluetooth callback with \<open>connected = false\<close> makes exactly one call of
  \<^verbatim>\<open>vibes_double_pulse\<close> and one with \<open>connected = true\<close> makes none, in every state:
  a second disconnected callback in a row vibrates again.
\<close>

theorem bluetooth_disconnected_vibrates:
  "count_list (fst (bluetooth_callback is_connected s)) VibesDoublePulse
     = (if is_connected then 0 else 1) \<and>
   count_list (fst (bluetooth_callback False (snd (bluetooth_callback False s)))) VibesDoublePulse
     = 1"
  by (simp add: bluetooth_callback_def Let_def)

theorem bluetooth_disconnected_vibrates_witness:
  "count_list (fst (bluetooth_callback False started)) VibesDoublePulse = 1 \<and>
   count_list (fst (bluetooth_callback True started)) VibesDoublePulse = 0"
  using bluetooth_disconnected_vibrates [of False started]
    bluetooth_disconnected_vibrates [of True started]
  by simp

subsection \<open>Weather messages\<close>

lemma printf_temperature: "printf_format ''%dF'' [ArgInt i] = dec_int i @ ''F''"
  by (simp add: printf_conversion_def)

lemma printf_conditions: "printf_format ''%s'' [ArgStr x] = c_str x"
  by (simp add: printf_conversion_def)

lemma printf_weather:
  "printf_format ''%s, %s'' [ArgStr a, ArgStr b] = c_str a @ '', '' @ c_str b"
  by (simp add: printf_conversion_def)

lemma c_str_no_NUL: "NUL \<notin> set a \<Longrightarrow> c_str a = a"
  by (auto simp: c_str_def takeWhile_eq_all_conv)

lemma NUL_notin_c_str: "NUL \<notin> set (c_str a)"
  unfolding c_str_def by (metis (mono_tags, lifting) set_takeWhileD)

lemma digit_char_not_NUL: "d < 10 \<Longrightarrow> NUL \<noteq> digit_char d"
proof -
  assume "d < 10"
  then have "d \<in> {0,1,2,3,4,5,6,7,8,9}" by auto
  then show ?thesis by (auto simp: digit_char_def NUL_def)
qed

lemma NUL_notin_dec_nat: "NUL \<notin> set (dec_nat n)"
proof (induction n rule: dec_nat.induct)
  case (1 n)
  show ?case
  proof (cases "n < 10")
    case True
    then show ?thesis by (simp add: dec_nat.simps [of n] digit_char_not_NUL)
  next
    case False
    with 1 show ?thesis by (simp add: dec_nat.simps [of n] digit_char_not_NUL)
  qed
qed

lemma NUL_notin_dec_int: "NUL \<notin> set (dec_int i)"
  by (simp add: dec_int_def NUL_notin_dec_nat) (simp add: NUL_def)

lemma c_str_take: "NUL \<notin> set a \<Longrightarrow> c_str (take n a) = take n a"
  by (rule c_str_no_NUL) (auto dest: in_set_takeD)

lemma snprintf_temperature:
  "snprintf b 8 ''%dF'' [ArgInt i] = take 7 (dec_int i @ ''F'')"
  unfolding snprintf_def printf_temperature by simp

lemma snprintf_conditions:
  "snprintf b 32 ''%s'' [ArgStr x] = take 31 (c_str x)"
  unfolding snprintf_def printf_conditions by simp

lemma snprintf_weather:
  "snprintf b 32 ''%s, %s'' [ArgStr (take 7 (dec_int i @ ''F'')), ArgStr (take 31 (c_str x))] =
     take 31 (take 7 (dec_int i @ ''F'') @ '', '' @ take 31 (c_str x))"
proof -
  have t: "c_str (take 7 (dec_int i @ ''F'')) = take 7 (dec_int i @ ''F'')"
    by (rule c_str_take) (simp add: NUL_notin_dec_int, simp add: NUL_def)
  have c: "c_str (take 31 (c_str x)) = take 31 (c_str x)"
    by (rule c_str_take) (rule NUL_notin_c_str)
  show ?thesis
    unfolding snprintf_def printf_weather t c by simp
qed

lemma inbox_complete:
  assumes "dict_find iterator (MESSAGE_KEY_TEMPERATURE keys) = Some tt"
    and "dict_find iterator (MESSAGE_KEY_CONDITIONS keys) = Some ct"
  shows "inbox_received_callback keys iterator s =
     ([TextLayerSetText S_WEATHER_LAYER WEATHER_LAYER_BUFFER],
      s\<lparr>temperature_buffer := take 7 (dec_int (sint (value_int32 tt)) @ ''F''),
        conditions_buffer := take 31 (c_str (value_cstring ct)),
        weather_layer_buffer :=
          take 31 (take 7 (dec_int (sint (value_int32 tt)) @ ''F'') @ '', '' @
                   take 31 (c_str (value_cstring ct))),
        s_weather_layer := Some WEATHER_LAYER_BUFFER\<rparr>)"
  using assms
  by (simp add: inbox_received_callback_def Let_def snprintf_temperature snprintf_conditions
      snprintf_weather del: take_append)

lemma dec_nat_72: "dec_nat 72 = ''72''"
  by (simp add: dec_nat.simps digit_char_def)

lemma dec_int_72: "dec_int 72 = ''72''"
  by (simp add: dec_int_def dec_nat_72)

lemma dec_nat_nonempty: "dec_nat n \<noteq> []"
  by (subst dec_nat.simps) simp

lemma dec_int_nonempty: "dec_int i \<noteq> []"
  by (simp add: dec_int_def dec_nat_nonempty)

lemma dec_int_two_digits: "10 \<le> i \<Longrightarrow> i \<le> 99 \<Longrightarrow> length (dec_int i) = 2"
proof -
  assume a: "10 \<le> i" "i \<le> 99"
  then have n: "\<not> nat i < 10" "nat i div 10 < 10" by simp_all
  have "dec_nat (nat i) = dec_nat (nat i div 10) @ [digit_char (nat i mod 10)]"
    using n(1) by (subst dec_nat.simps) simp
  also have "dec_nat (nat i div 10) = [digit_char (nat i div 10)]"
    using n(2) by (subst dec_nat.simps) simp
  finally show ?thesis using a by (simp add: dec_int_def)
qed

lemma dict_find_example:
  "dict_find [temperature_72, conditions_cloudy] (MESSAGE_KEY_TEMPERATURE example_keys)
     = Some temperature_72"
  "dict_find [temperature_72, conditions_cloudy] (MESSAGE_KEY_CONDITIONS example_keys)
     = Some conditions_cloudy"
  "dict_find [temperature_72, conditions_long] (MESSAGE_KEY_TEMPERATURE example_keys)
     = Some temperature_72"
  "dict_find [temperature_72, conditions_long] (MESSAGE_KEY_CONDITIONS example_keys)
     = Some conditions_long"
  "dict_find [temperature_72] (MESSAGE_KEY_TEMPERATURE example_keys) = Some temperature_72"
  "dict_find [temperature_72] (MESSAGE_KEY_CONDITIONS example_keys) = None"
  by (simp_all add: dict_find_def example_keys_def temperature_72_def conditions_cloudy_def
      conditions_long_def)

lemma weather_text_complete:
  assumes "dict_find iterator (MESSAGE_KEY_TEMPERATURE keys) = Some tt"
    and "dict_find iterator (MESSAGE_KEY_CONDITIONS keys) = Some ct"
  shows "weather_text (snd (inbox_received_callback keys iterator s)) =
     Some (take 31 (take 7 (dec_int (sint (value_int32 tt)) @ ''F'') @ '', '' @
                    take 31 (c_str (value_cstring ct))))"
  by (simp add: inbox_complete [OF assms] weather_text_def layer_text_def buffer_text_def
      del: take_append)

lemma c_str_cloudy: "c_str (value_cstring conditions_cloudy) = ''Cloudy''"
  by (simp add: c_str_def conditions_cloudy_def NUL_def)

lemma weather_text_cloudy_shown: "weather_text cloudy_shown = Some ''72F, Cloudy''"
  unfolding cloudy_shown_def weather_text_complete [OF dict_find_example(1,2)]
  by (simp add: c_str_cloudy) (simp add: temperature_72_def dec_int_72)

lemma c_str_long:
  "c_str (value_cstring conditions_long) = ''Thunderstorms with heavy rain''"
  by (simp add: c_str_def conditions_long_def NUL_def)

text \<open>
  Claim C4. When the temperature tuple or the conditions tuple is missing from an
  inbound message, the callback makes no SDK call (so it logs nothing) and leaves the
  whole state as it was; the weather text shown is the text shown before.
\<close>

theorem inbox_partial_ignored:
  "dict_find iterator (MESSAGE_KEY_TEMPERATURE keys) = None \<or>
   dict_find iterator (MESSAGE_KEY_CONDITIONS keys) = None \<Longrightarrow>
   inbox_received_callback keys iterator s = ([], s) \<and>
   weather_text (snd (inbox_received_callback keys iterator s)) = weather_text s"
  by (auto simp: inbox_received_callback_def Let_def split: option.splits)

text \<open>With \<open>72F, Cloudy\<close> on display, a message with the temperature only changes nothing.\<close>

theorem inbox_partial_ignored_witness:
  "dict_find [temperature_72] (MESSAGE_KEY_CONDITIONS example_keys) = None \<and>
   inbox_received_callback example_keys [temperature_72] cloudy_shown = ([], cloudy_shown) \<and>
   weather_text (snd (inbox_received_callback example_keys [temperature_72] cloudy_shown))
     = Some ''72F, Cloudy''"
proof -
  have h: "dict_find [temperature_72] (MESSAGE_KEY_TEMPERATURE example_keys) = None \<or>
      dict_find [temperature_72] (MESSAGE_KEY_CONDITIONS example_keys) = None"
    by (simp add: dict_find_example)
  show ?thesis
    using inbox_partial_ignored [OF h, of cloudy_shown]
    by (simp add: dict_find_example weather_text_cloudy_shown)
qed

text \<open>
  Claim C5 says that every complete message puts \<open><temperature>F, <conditions>\<close> on
  display. For 72 and a conditions string of 29 characters it does not.
\<close>

theorem weather_text_formatted_counterexample:
  "dict_find [temperature_72, conditions_long] (MESSAGE_KEY_TEMPERATURE example_keys)
     = Some temperature_72 \<and>
   dict_find [temperature_72, conditions_long] (MESSAGE_KEY_CONDITIONS example_keys)
     = Some conditions_long \<and>
   sint (value_int32 temperature_72) = 72 \<and>
   c_str (value_cstring conditions_long) = ''Thunderstorms with heavy rain'' \<and>
   weather_text (snd (inbox_received_callback example_keys [temperature_72, conditions_long]
       started)) \<noteq> Some ''72F, Thunderstorms with heavy rain''"
  unfolding weather_text_complete [OF dict_find_example(3,4)]
  by (simp add: dict_find_example c_str_long) (simp add: temperature_72_def dec_int_72)

text \<open>
  Claim C5, amended. A message with both tuples replaces the weather text with
  \<open><temperature>F, <conditions>\<close> cut to the buffers: the first 7 characters of the
  temperature and its \<open>F\<close>, a comma and a space, the first 31 characters of the
  conditions, and of all that the first 31 characters. When the temperature has at most
  6 characters and the whole text at most 31, nothing is cut; for 72 and \<open>Cloudy\<close> the
  text is \<open>72F, Cloudy\<close>.
\<close>

theorem weather_text_formatted:
  "dict_find iterator (MESSAGE_KEY_TEMPERATURE keys) = Some tt \<Longrightarrow>
   dict_find iterator (MESSAGE_KEY_CONDITIONS keys) = Some ct \<Longrightarrow>
   weather_text (snd (inbox_received_callback keys iterator s)) =
     Some (take 31 (take 7 (dec_int (sint (value_int32 tt)) @ ''F'') @ '', '' @
                    take 31 (c_str (value_cstring ct)))) \<and>
   (length (dec_int (sint (value_int32 tt))) \<le> 6 \<and>
    length (dec_int (sint (value_int32 tt))) + 3 + length (c_str (value_cstring ct)) \<le> 31 \<longrightarrow>
    weather_text (snd (inbox_received_callback keys iterator s)) =
      Some (dec_int (sint (value_int32 tt)) @ ''F, '' @ c_str (value_cstring ct))) \<and>
   (sint (value_int32 tt) = 72 \<and> c_str (value_cstring ct) = ''Cloudy'' \<longrightarrow>
    weather_text (snd (inbox_received_callback keys iterator s)) = Some ''72F, Cloudy'')"
proof -
  assume a: "dict_find iterator (MESSAGE_KEY_TEMPERATURE keys) = Some tt"
    "dict_find iterator (MESSAGE_KEY_CONDITIONS keys) = Some ct"
  note w = weather_text_complete [OF a, of s]
  have fits: "take 31 (take 7 (d @ ''F'') @ '', '' @ take 31 c) = d @ ''F, '' @ c"
    if "length d \<le> 6" "length d + 3 + length c \<le> 31" for d c :: string
    using that by simp
  show ?thesis
  proof (intro conjI impI)
    show "weather_text (snd (inbox_received_callback keys iterator s)) =
      Some (take 31 (take 7 (dec_int (sint (value_int32 tt)) @ ''F'') @ '', '' @
                     take 31 (c_str (value_cstring ct))))"
      by (rule w)
  next
    assume "length (dec_int (sint (value_int32 tt))) \<le> 6 \<and>
      length (dec_int (sint (value_int32 tt))) + 3 + length (c_str (value_cstring ct)) \<le> 31"
    then show "weather_text (snd (inbox_received_callback keys iterator s)) =
      Some (dec_int (sint (value_int32 tt)) @ ''F, '' @ c_str (value_cstring ct))"
      unfolding w using fits by blast
  next
    assume "sint (value_int32 tt) = 72 \<and> c_str (value_cstring ct) = ''Cloudy''"
    then show "weather_text (snd (inbox_received_callback keys iterator s)) = Some ''72F, Cloudy''"
      unfolding w by (simp add: dec_int_72)
  qed
qed

theorem weather_text_formatted_witness:
  "dict_find [temperature_72, conditions_cloudy] (MESSAGE_KEY_TEMPERATURE example_keys)
     = Some temperature_72 \<and>
   dict_find [temperature_72, conditions_cloudy] (MESSAGE_KEY_CONDITIONS example_keys)
     = Some conditions_cloudy \<and>
   sint (value_int32 temperature_72) = 72 \<and>
   c_str (value_cstring conditions_cloudy) = ''Cloudy'' \<and>
   weather_text (snd (inbox_received_callback example_keys [temperature_72, conditions_cloudy]
       started)) = Some ''72F, Cloudy''"
proof -
  have t: "sint (value_int32 temperature_72) = 72" by (simp add: temperature_72_def)
  show ?thesis
    using weather_text_formatted [OF dict_find_example(1,2), of started] t c_str_cloudy
    by (simp add: dict_find_example dec_int_72)
qed

text \<open>
  Claim C10. After a complete message each of the three buffers holds a string that
  fits it with its terminator (8, 32 and 32 bytes), the text shown is the weather buffer,
  at most 31 characters, and the only SDK call sets that text. A conditions string of
  more than 27 characters, or of more than 26 behind a two-digit temperature, is cut:
  the text shown has 31 characters and is not the whole \<open><temperature>F, <conditions>\<close>.
\<close>

theorem weather_buffers_bounded:
  "dict_find iterator (MESSAGE_KEY_TEMPERATURE keys) = Some tt \<Longrightarrow>
   dict_find iterator (MESSAGE_KEY_CONDITIONS keys) = Some ct \<Longrightarrow>
   inbox_received_callback keys iterator s = (calls, s') \<Longrightarrow>
   calls = [TextLayerSetText S_WEATHER_LAYER WEATHER_LAYER_BUFFER] \<and>
   length (temperature_buffer s') + 1 \<le> 8 \<and>
   length (conditions_buffer s') + 1 \<le> 32 \<and>
   length (weather_layer_buffer s') + 1 \<le> 32 \<and>
   weather_text s' = Some (weather_layer_buffer s') \<and>
   (27 < length (c_str (value_cstring ct)) \<or>
    26 < length (c_str (value_cstring ct)) \<and>
      10 \<le> sint (value_int32 tt) \<and> sint (value_int32 tt) \<le> 99 \<longrightarrow>
    length (weather_layer_buffer s') = 31 \<and>
    weather_layer_buffer s' \<noteq>
      dec_int (sint (value_int32 tt)) @ ''F, '' @ c_str (value_cstring ct))"
proof -
  assume a: "dict_find iterator (MESSAGE_KEY_TEMPERATURE keys) = Some tt"
    "dict_find iterator (MESSAGE_KEY_CONDITIONS keys) = Some ct"
    and r: "inbox_received_callback keys iterator s = (calls, s')"
  define d where "d = dec_int (sint (value_int32 tt))"
  define c where "c = c_str (value_cstring ct)"
  from r inbox_complete [OF a, of s]
  have s': "s' = s\<lparr>temperature_buffer := take 7 (d @ ''F''),
        conditions_buffer := take 31 c,
        weather_layer_buffer := take 31 (take 7 (d @ ''F'') @ '', '' @ take 31 c),
        s_weather_layer := Some WEATHER_LAYER_BUFFER\<rparr>"
    by (simp add: d_def c_def)
  define n where "n = length d"
  define m where "m = length c"
  have n: "1 \<le> n"
    unfolding n_def d_def using dec_int_nonempty [of "sint (value_int32 tt)"]
    by (simp add: Suc_le_eq)
  have len: "length (take 7 (d @ ''F'') @ '', '' @ take 31 c) = min (n + 1) 7 + 2 + min m 31"
    by (simp add: n_def m_def)
  have long: "31 < length d + 3 + length c \<and>
      31 \<le> length (take 7 (d @ ''F'') @ '', '' @ take 31 c)"
    if "27 < length c \<or> 26 < length c \<and> 10 \<le> sint (value_int32 tt) \<and> sint (value_int32 tt) \<le> 99"
  proof -
    from that have "27 < m \<or> 26 < m \<and> n = 2"
      using dec_int_two_digits [of "sint (value_int32 tt)"] by (auto simp: d_def n_def m_def)
    then show ?thesis
      unfolding len using n unfolding n_def [symmetric] m_def [symmetric] by arith
  qed
  show ?thesis
  proof (intro conjI impI)
    show "calls = [TextLayerSetText S_WEATHER_LAYER WEATHER_LAYER_BUFFER]"
      using r inbox_complete [OF a, of s] by simp
    show "length (temperature_buffer s') + 1 \<le> 8" by (simp add: s')
    show "length (conditions_buffer s') + 1 \<le> 32" by (simp add: s')
    show "length (weather_layer_buffer s') + 1 \<le> 32" by (simp add: s')
    show "weather_text s' = Some (weather_layer_buffer s')"
      by (simp add: s' weather_text_def layer_text_def buffer_text_def)
  next
    assume h: "27 < length (c_str (value_cstring ct)) \<or>
      26 < length (c_str (value_cstring ct)) \<and>
        10 \<le> sint (value_int32 tt) \<and> sint (value_int32 tt) \<le> 99"
    note l = long [OF h [folded c_def]]
    show "length (weather_layer_buffer s') = 31"
      using l by (simp add: s' del: take_append length_append)
    have "length (weather_layer_buffer s') \<noteq> length (d @ ''F, '' @ c)"
      using l by (simp add: s' del: take_append)
    then show "weather_layer_buffer s' \<noteq>
        dec_int (sint (value_int32 tt)) @ ''F, '' @ c_str (value_cstring ct)"
      unfolding d_def c_def by metis
  qed
qed

text \<open>For 72 and 29 characters of conditions the text ends after \<open>heavy r\<close>.\<close>

theorem weather_buffers_bounded_witness:
  "length (weather_layer_buffer (snd (inbox_received_callback example_keys
       [temperature_72, conditions_long] started))) = 31 \<and>
   weather_text (snd (inbox_received_callback example_keys
       [temperature_72, conditions_long] started)) = Some ''72F, Thunderstorms with heavy r''"
proof -
  have l: "27 < length (c_str (value_cstring conditions_long))"
    by (simp add: c_str_long)
  have w: "weather_layer_buffer (snd (inbox_received_callback example_keys
       [temperature_72, conditions_long] started)) = ''72F, Thunderstorms with heavy r''"
    unfolding inbox_complete [OF dict_find_example(3,4)]
    by (simp add: c_str_long) (simp add: temperature_72_def dec_int_72)
  show ?thesis
    using weather_buffers_bounded [OF dict_find_example(3,4) surjective_pairing, of started] l w
    by simp
qed

subsection \<open>Single-precision rounding and the battery bar\<close>

lemmas f32_eval =
  f32_to_int_def f32_mul_def f32_div_def f32_of_int_def f32_round_def quantize_def
  round_half_even_def ties_to_even_def ilog2_def ilog2_below_def pow2_def bitlen.simps

lemma f32_round_100: "f32_round 100 = 100"
  by (simp add: f32_eval)

lemma f32_round_114: "f32_round 114 = 114"
  by (simp add: f32_eval)

lemma battery_bar_width_alt:
  "battery_bar_width level = f32_to_int (f32_round (f32_mul (f32_div (f32_of_int level) 100) 114))"
  by (simp add: battery_bar_width_def f32_round_100 f32_round_114)

lemma pow2_powi: "pow2 k = 2 powi k"
  by (simp add: pow2_def power_int_def inverse_eq_divide power_one_over)

lemma bitlen_bounds:
  "0 < n \<Longrightarrow> 1 \<le> bitlen n \<and> 2 ^ nat (bitlen n - 1) \<le> n \<and> n < 2 ^ nat (bitlen n)"
proof (induction n rule: bitlen.induct)
  case (1 n)
  show ?case
  proof (cases "n = 1")
    case True
    then show ?thesis by (simp add: bitlen.simps)
  next
    case False
    with "1.prems" have pos: "0 < n div 2" by simp
    from "1.IH" "1.prems" pos
    have ih: "1 \<le> bitlen (n div 2)" "2 ^ nat (bitlen (n div 2) - 1) \<le> n div 2"
      "n div 2 < 2 ^ nat (bitlen (n div 2))"
      by simp_all
    have b: "bitlen n = 1 + bitlen (n div 2)"
      using "1.prems" by (simp add: bitlen.simps [of n])
    have e1: "nat (bitlen n - 1) = Suc (nat (bitlen (n div 2) - 1))"
      using ih(1) b by simp
    have e2: "nat (bitlen n) = Suc (nat (bitlen (n div 2)))"
      using ih(1) b by simp
    define A where "A = (2::int) ^ nat (bitlen (n div 2) - 1)"
    define B where "B = (2::int) ^ nat (bitlen (n div 2))"
    have d: "2 * (n div 2) \<le> n" "n \<le> 2 * (n div 2) + 1"
      by presburger+
    have "2 * A \<le> n" "n < 2 * B"
      using ih(2,3) d unfolding A_def [symmetric] B_def [symmetric] by linarith+
    then show ?thesis
      using ih(1) b unfolding e1 e2 A_def B_def by simp
  qed
qed

lemma pow2_pos: "0 < pow2 k"
  by (simp add: pow2_powi zero_less_power_int)

lemma pow2_add: "pow2 (a + b) = pow2 a * pow2 b"
  by (simp add: pow2_powi power_int_add)

lemma pow2_nat: "0 \<le> k \<Longrightarrow> pow2 k = 2 ^ nat k"
  by (simp add: pow2_def)

lemma pow2_less_imp: "pow2 a < pow2 b \<Longrightarrow> a < b"
proof (rule ccontr)
  assume l: "pow2 a < pow2 b" and "\<not> a < b"
  then have "b \<le> a" by simp
  then have "pow2 b \<le> pow2 a"
    unfolding pow2_powi by (rule power_int_increasing) simp
  with l show False by simp
qed

lemma ilog2_bounds:
  assumes "0 < x"
  shows "pow2 (ilog2 x) \<le> x \<and> x < pow2 (ilog2 x + 1)"
proof (cases "1 \<le> x")
  case True
  then have fl: "0 < \<lfloor>x\<rfloor>" by simp
  note bb = bitlen_bounds [OF fl]
  have e: "ilog2 x = bitlen \<lfloor>x\<rfloor> - 1" using True by (simp add: ilog2_def)
  have "(2::int) ^ nat (bitlen \<lfloor>x\<rfloor> - 1) \<le> \<lfloor>x\<rfloor>" using bb by simp
  then have lo: "pow2 (bitlen \<lfloor>x\<rfloor> - 1) \<le> x"
    using bb by (simp add: pow2_nat le_floor_iff)
  have "\<lfloor>x\<rfloor> < (2::int) ^ nat (bitlen \<lfloor>x\<rfloor>)" using bb by simp
  then have hi: "x < pow2 (bitlen \<lfloor>x\<rfloor>)"
    using bb by (simp add: pow2_nat floor_less_iff)
  show ?thesis using lo hi by (simp add: e)
next
  case False
  define y where "y = 1 / x"
  define b where "b = bitlen \<lfloor>y\<rfloor>"
  have y1: "1 < y" using False assms by (simp add: y_def)
  then have fl: "0 < \<lfloor>y\<rfloor>" by simp
  note bb = bitlen_bounds [OF fl, folded b_def]
  have "(2::int) ^ nat (b - 1) \<le> \<lfloor>y\<rfloor>" using bb by simp
  then have lo: "pow2 (b - 1) \<le> y"
    using bb by (simp add: pow2_nat le_floor_iff)
  have "\<lfloor>y\<rfloor> < (2::int) ^ nat b" using bb by simp
  then have hi: "y < pow2 b"
    using bb by (simp add: pow2_nat floor_less_iff)
  have inv: "pow2 (- k) = 1 / pow2 k" for k
    using pow2_add [of "- k" k] pow2_pos [of k] by (simp add: pow2_def field_simps)
  have xlo: "pow2 (- b) < x"
    using hi assms pow2_pos [of b] unfolding inv y_def by (simp add: field_simps)
  have "x \<le> 1 / pow2 (b - 1)"
    using lo assms pow2_pos [of "b - 1"] unfolding y_def by (simp add: field_simps)
  then have xhi: "x \<le> pow2 (1 - b)"
    using inv [of "b - 1"] by simp
  have e: "ilog2 x = ilog2_below x (1 - b)"
    using False by (simp add: ilog2_def b_def y_def)
  show ?thesis
  proof (cases "pow2 (1 - b) \<le> x")
    case True
    then have "ilog2 x = 1 - b" by (simp add: e ilog2_below_def)
    moreover have "pow2 (1 - b) < pow2 (1 - b + 1)"
      using pow2_add [of "1 - b" 1] pow2_pos [of "1 - b"] by (simp add: pow2_def)
    ultimately show ?thesis using True xhi by simp
  next
    case False
    then have "ilog2 x = - b" by (simp add: e ilog2_below_def)
    then show ?thesis using False xlo by simp
  qed
qed

lemma round_half_even_error: "\<bar>real_of_int (round_half_even q) - q\<bar> \<le> 1 / 2"
proof -
  have "real_of_int \<lfloor>q\<rfloor> \<le> q" "q < real_of_int \<lfloor>q\<rfloor> + 1" by linarith+
  then show ?thesis
    by (auto simp: round_half_even_def ties_to_even_def)
qed

lemma f32_round_error:
  assumes "1 / 256 \<le> x"
  shows "\<bar>f32_round x - x\<bar> \<le> x / 16777216"
proof -
  have pos: "0 < x" using assms by simp
  define e where "e = ilog2 x"
  have b: "pow2 e \<le> x" "x < pow2 (e + 1)"
    using ilog2_bounds [OF pos] by (simp_all add: e_def)
  have "pow2 (- 8) \<le> x" using assms by (simp add: pow2_def)
  with b(2) have "pow2 (- 8) < pow2 (e + 1)" by simp
  then have "- 8 < e + 1" by (rule pow2_less_imp)
  then have m: "max e (- 126) = e" by simp
  define u where "u = pow2 (e - 23)"
  have upos: "0 < u" by (simp add: u_def pow2_pos)
  have r: "f32_round x = real_of_int (round_half_even (x / u)) * u"
    using pos by (simp add: f32_round_def quantize_def e_def [symmetric] m u_def)
  have "real_of_int (round_half_even (x / u)) * u - x
      = (real_of_int (round_half_even (x / u)) - x / u) * u"
    using upos by (simp add: left_diff_distrib)
  then have "\<bar>real_of_int (round_half_even (x / u)) * u - x\<bar>
      = \<bar>real_of_int (round_half_even (x / u)) - x / u\<bar> * u"
    using upos by (simp add: abs_mult)
  also have "\<dots> \<le> 1 / 2 * u"
    using round_half_even_error [of "x / u"] upos by (intro mult_right_mono) simp_all
  also have "1 / 2 * u = pow2 e / 16777216"
    using pow2_add [of e "- 23"] by (simp add: u_def pow2_def)
  also have "\<dots> \<le> x / 16777216" using b(1) by simp
  finally show ?thesis by (simp add: r)
qed

lemma f32_round_between:
  assumes "1 / 256 \<le> x"
  shows "16777215 * x \<le> 16777216 * f32_round x" "16777216 * f32_round x \<le> 16777217 * x"
  using abs_le_D1 [OF f32_round_error [OF assms]] abs_le_D2 [OF f32_round_error [OF assms]]
  by linarith+

lemma battery_bar_width_near:
  assumes "1 \<le> p" "p \<le> 255"
  defines "d \<equiv> f32_round (f32_mul (f32_div (f32_of_int p) 100) 114)"
  shows "real_of_int p * 114 / 100 - 1 / 1000 \<le> d" "d \<le> real_of_int p * 114 / 100 + 1 / 1000"
proof -
  define t where "t = real_of_int p"
  have t: "1 \<le> t" "t \<le> 255" using assms by (simp_all add: t_def)
  define a where "a = f32_round t"
  define b where "b = f32_round (a / 100)"
  define c where "c = f32_round (b * 114)"
  have d: "d = f32_round c"
    by (simp add: d_def c_def b_def a_def t_def f32_mul_def f32_div_def f32_of_int_def)
  have "1 / 256 \<le> t" using t by simp
  from f32_round_between [OF this]
  have a: "9999999 * t \<le> 10000000 * a" "10000000 * a \<le> 10000001 * t"
    using t unfolding a_def by linarith+
  have "1 / 256 \<le> a / 100" using a t by linarith
  from f32_round_between [OF this]
  have b: "9999998 * t \<le> 1000000000 * b" "1000000000 * b \<le> 10000003 * t"
    using a t unfolding b_def by linarith+
  have "1 / 256 \<le> b * 114" using b t by linarith
  from f32_round_between [OF this]
  have c: "1139999658 * t \<le> 1000000000 * c" "1000000000 * c \<le> 1140000570 * t"
    using b t unfolding c_def by linarith+
  have "1 / 256 \<le> c" using c t by linarith
  from f32_round_between [OF this]
  have "1139999544 * t \<le> 1000000000 * d" "1000000000 * d \<le> 1140000798 * t"
    using c t unfolding d by linarith+
  then show "real_of_int p * 114 / 100 - 1 / 1000 \<le> d" "d \<le> real_of_int p * 114 / 100 + 1 / 1000"
    using t unfolding t_def by linarith+
qed

lemma battery_bar_width_inexact:
  assumes "1 \<le> p" "p \<le> 255" "(p * 114) mod 100 \<noteq> 0"
  shows "battery_bar_width p = p * 114 div 100"
proof -
  define d where "d = f32_round (f32_mul (f32_div (f32_of_int p) 100) 114)"
  define k where "k = p * 114 div 100"
  define r where "r = (p * 114) mod 100"
  have "0 \<le> r" "r < 100" "r \<noteq> 0" using assms(3) by (simp_all add: r_def)
  then have r: "1 \<le> r" "r \<le> 99" by linarith+
  have "p * 114 = 100 * k + r" unfolding k_def r_def by (rule mult_div_mod_eq [symmetric])
  then have "real_of_int (p * 114) = real_of_int (100 * k + r)" by simp
  then have e: "real_of_int p * 114 / 100 = real_of_int k + real_of_int r / 100" by simp
  have rr: "1 \<le> real_of_int r" "real_of_int r \<le> 99" using r by simp_all
  note n = battery_bar_width_near [OF assms(1,2), folded d_def]
  have lo: "real_of_int k \<le> d" using n(1) rr unfolding e by linarith
  have hi: "d < real_of_int k + 1" using n(2) rr unfolding e by linarith
  have "0 \<le> k" using assms unfolding k_def by (intro pos_imp_zdiv_nonneg_iff [THEN iffD2]) simp_all
  then have "0 \<le> d" using lo by linarith
  then have "battery_bar_width p = \<lfloor>d\<rfloor>"
    by (simp add: battery_bar_width_alt d_def f32_to_int_def)
  also have "\<lfloor>d\<rfloor> = k" using lo hi by (rule floor_unique)
  finally show ?thesis unfolding k_def .
qed

lemma exact_levels:
  assumes "0 \<le> p" "p \<le> 255" "(p * 114) mod 100 = 0"
  shows "p = 0 \<or> p = 50 \<or> p = 100 \<or> p = 150 \<or> p = 200 \<or> p = (250::int)"
proof -
  have "100 dvd p * 114" using assms(3) by (simp only: mod_eq_0_iff_dvd)
  then obtain q where "p * 114 = 100 * q" by (auto simp only: dvd_def)
  then have "57 * p = 50 * q" by simp
  then have "p = 50 * (8 * p - 7 * q)" by (simp add: algebra_simps)
  then obtain j where j: "p = 50 * j" ..
  with assms(1,2) have "0 \<le> j" "j \<le> 5" by simp_all
  then have "j = 0 \<or> j = 1 \<or> j = 2 \<or> j = 3 \<or> j = 4 \<or> j = 5" by linarith
  then show ?thesis using j by auto
qed

lemma battery_bar_width_exact:
  "battery_bar_width 0 = 0" "battery_bar_width 50 = 57" "battery_bar_width 100 = 114"
  "battery_bar_width 150 = 171" "battery_bar_width 200 = 228" "battery_bar_width 250 = 285"
  by (simp_all add: battery_bar_width_alt f32_eval)

lemma battery_bar_width_eq:
  assumes "0 \<le> p" "p \<le> 255"
  shows "battery_bar_width p = p * 114 div 100"
proof (cases "(p * 114) mod 100 = 0")
  case True
  with assms have "p = 0 \<or> p = 50 \<or> p = 100 \<or> p = 150 \<or> p = 200 \<or> p = 250"
    by (rule exact_levels)
  then show ?thesis using battery_bar_width_exact by auto
next
  case False
  with assms have "1 \<le> p" by (cases "p = 0") auto
  then show ?thesis using assms(2) False by (rule battery_bar_width_inexact)
qed

lemma main_window_load_battery_layer:
  "s_battery_layer (snd (main_window_load c s)) = Some (layer_create (GRect 14 54 115 2))"
  by (simp add: main_window_load_def bluetooth_callback_def Let_def)

lemma init_battery_layer:
  "s_battery_layer (snd (init clock c b s)) = Some (layer_create (GRect 14 54 115 2))"
proof -
  obtain c1 s1 where m: "main_window_load c s = (c1, s1)" by (cases "main_window_load c s")
  have "s_battery_layer s1 = Some (layer_create (GRect 14 54 115 2))"
    using main_window_load_battery_layer [of c s] m by simp
  then show ?thesis
    by (simp add: init_def m update_time_def battery_callback_def Let_def)
qed

lemma started_layer: "s_battery_layer started = Some started_battery_layer"
  by (simp add: started_def started_battery_layer_def init_battery_layer)

lemma battery_level_stored:
  "s_battery_level (snd (battery_callback state s)) = uint (charge_percent state)"
  by (simp add: battery_callback_def)

lemma bar_width_drawn:
  "bar_width (battery_update_proc l s) = battery_bar_width (s_battery_level s)"
  by (simp add: bar_width_def battery_update_proc_def Let_def GRect_def)

lemma track_width_drawn:
  "track_width (battery_update_proc l s) = size_w (layer_get_bounds l)"
  by (simp add: track_width_def battery_update_proc_def Let_def)

lemma uint_percent_range: "0 \<le> uint (p :: 8 word)" "uint (p :: 8 word) \<le> 255"
  using uint_lt2p [of p] by simp_all

lemma bar_width_after_callback:
  "bar_width (battery_update_proc l (snd (battery_callback state s)))
     = uint (charge_percent state) * 114 div 100"
  by (simp only: bar_width_drawn battery_level_stored
      battery_bar_width_eq [OF uint_percent_range])

text \<open>
  Claim C2 says that the bar is as wide as \<open>percent / 100 \<times> 114\<close> rounded to the nearest
  integer. At 20 percent that is 23; the bar drawn is 22 wide.
\<close>

theorem bar_width_rounded_counterexample:
  "bar_width (battery_update_proc started_battery_layer
       (snd (battery_callback (battery_at 20) started)))
     \<noteq> spec_bar_width (uint (charge_percent (battery_at 20)))"
  unfolding bar_width_after_callback
  by (simp add: battery_at_def spec_bar_width_def round_def)

text \<open>
  Claim C2, amended. For every battery level the host can report (eight bits), the bar
  drawn is \<open>percent / 100 \<times> 114\<close> with its fraction dropped: the single-precision product
  converted to \<^verbatim>\<open>int\<close> is the floor of the real quotient, \<open>percent \<times> 114 div 100\<close>.
\<close>

theorem bar_width_truncated:
  "bar_width (battery_update_proc l (snd (battery_callback state s)))
     = \<lfloor>real_of_int (uint (charge_percent state)) / 100 * 114\<rfloor> \<and>
   bar_width (battery_update_proc l (snd (battery_callback state s)))
     = uint (charge_percent state) * 114 div 100"
proof -
  have "\<lfloor>real_of_int (uint (charge_percent state)) / 100 * 114\<rfloor>
      = \<lfloor>real_of_int (uint (charge_percent state) * 114) / real_of_int 100\<rfloor>"
    by simp
  also have "\<dots> = uint (charge_percent state) * 114 div 100"
    by (rule floor_divide_of_int_eq)
  finally show ?thesis
    by (simp only: bar_width_after_callback simp_thms)
qed

theorem bar_width_truncated_witness:
  "bar_width (battery_update_proc started_battery_layer
       (snd (battery_callback (battery_at 20) started))) = 22"
  using bar_width_truncated [of started_battery_layer "battery_at 20" started]
  by (simp add: battery_at_def)

text \<open>
  Claim C3 says that at 100 percent the bar is as wide as the background rectangle
  painted behind it. In the layer the program creates it is not.
\<close>

theorem bar_width_full_track_counterexample:
  "s_battery_layer started = Some started_battery_layer \<and>
   bar_width (battery_update_proc started_battery_layer
       (snd (battery_callback (battery_at 100) started)))
     \<noteq> track_width (battery_update_proc started_battery_layer
       (snd (battery_callback (battery_at 100) started)))"
  unfolding bar_width_after_callback track_width_drawn
  by (simp add: started_layer battery_at_def started_battery_layer_def layer_create_def
      layer_get_bounds_def GRect_def)

text \<open>
  Claim C3, amended. The width of the bar does not decrease when the level grows, over
  all levels of eight bits and so over 0 to 100; it is 0 at 0 percent and 114 at 100
  percent, one less than the width 115 of the background rectangle, the bounds of the
  battery layer that \<^verbatim>\<open>main_window_load\<close> creates.
\<close>

theorem bar_width_monotone:
  "charge_percent a \<le> charge_percent b \<Longrightarrow>
   bar_width (battery_update_proc l (snd (battery_callback a s)))
     \<le> bar_width (battery_update_proc l (snd (battery_callback b s))) \<and>
   (charge_percent a = 0 \<longrightarrow>
      bar_width (battery_update_proc l (snd (battery_callback a s))) = 0) \<and>
   (charge_percent b = 100 \<longrightarrow>
      bar_width (battery_update_proc l (snd (battery_callback b s))) = 114) \<and>
   (s_battery_layer (snd (main_window_load c s0)) = Some l \<longrightarrow>
      track_width (battery_update_proc l (snd (battery_callback b s))) = 115)"
proof -
  assume le: "charge_percent a \<le> charge_percent b"
  then have "uint (charge_percent a) \<le> uint (charge_percent b)"
    by (simp add: word_le_def)
  then have "uint (charge_percent a) * 114 \<le> uint (charge_percent b) * 114" by simp
  then have mono: "uint (charge_percent a) * 114 div 100 \<le> uint (charge_percent b) * 114 div 100"
    by (rule zdiv_mono1) simp
  have track: "track_width (battery_update_proc l (snd (battery_callback b s))) = 115"
    if "s_battery_layer (snd (main_window_load c s0)) = Some l"
    using that unfolding track_width_drawn main_window_load_battery_layer
    by (auto simp: layer_create_def layer_get_bounds_def GRect_def)
  show ?thesis
    unfolding bar_width_after_callback using mono track by auto
qed

theorem bar_width_monotone_witness:
  "charge_percent (battery_at 20) \<le> charge_percent (battery_at 50) \<and>
   bar_width (battery_update_proc started_battery_layer
       (snd (battery_callback (battery_at 20) started)))
     \<le> bar_width (battery_update_proc started_battery_layer
       (snd (battery_callback (battery_at 50) started))) \<and>
   bar_width (battery_update_proc started_battery_layer
       (snd (battery_callback (battery_at 0) started))) = 0 \<and>
   bar_width (battery_update_proc started_battery_layer
       (snd (battery_callback (battery_at 100) started))) = 114 \<and>
   track_width (battery_update_proc started_battery_layer
       (snd (battery_callback (battery_at 100) started))) = 115"
proof -
  have h1: "charge_percent (battery_at 20) \<le> charge_percent (battery_at 50)"
    by (simp add: battery_at_def)
  have h2: "charge_percent (battery_at 0) \<le> charge_percent (battery_at 100)"
    by (simp add: battery_at_def)
  have l: "s_battery_layer (snd (main_window_load True static_init)) = Some started_battery_layer"
    by (simp add: main_window_load_battery_layer started_battery_layer_def)
  show ?thesis
    using h1 l
      bar_width_monotone [OF h1, of started_battery_layer started True static_init]
      bar_width_monotone [OF h2, of started_battery_layer started True static_init]
    by (simp add: battery_at_def)
qed

end
